theory Spec2Isabelle
  imports Main "HOL-Library.Char_ord" "HOL-Library.List_Lexorder" "HOL-Library.Multiset"
begin

section \<open>Go values used by the helpers package\<close>

text \<open>
  A Go \<^verbatim>\<open>error\<close> is an interface value: \<^verbatim>\<open>nil\<close> or a value of some
  concrete type. The concrete types that occur in \<^verbatim>\<open>helpers/file.go\<close> are the
  result of \<^verbatim>\<open>errors.New\<close>, a \<^verbatim>\<open>syscall.Errno\<close>, the sentinels \<^verbatim>\<open>io.EOF\<close> and
  \<^verbatim>\<open>os.ErrNotExist\<close> (which \<^verbatim>\<open>os.IsNotExist\<close> knows), and
  \<^verbatim>\<open>*os.PathError\<close> with its three fields \<^verbatim>\<open>Op\<close>, \<^verbatim>\<open>Path\<close> and \<^verbatim>\<open>Err\<close>
  (itself an \<^verbatim>\<open>error\<close>, hence possibly \<^verbatim>\<open>nil\<close>). An \<^verbatim>\<open>error\<close> is modelled
  as \<open>error option\<close>, \<open>None\<close> being \<^verbatim>\<open>nil\<close>.
\<close>

datatype error =
    ErrorString string
  | Errno nat
  | EOF
  | ErrNotExist
  | PathErr string string "error option"

text \<open>The errno values of \<^verbatim>\<open>syscall\<close> on Linux that the code compares with.\<close>

definition ENOENT :: nat where
  "ENOENT = 2"

definition ENOTEMPTY :: nat where
  "ENOTEMPTY = 39"

text \<open>
  A failed type assertion without the comma-ok form panics, and so does a method call
  on a nil interface; a function that can panic returns \<open>panic + 'a\<close>.
\<close>

datatype panic = TypeAssertionPanic | NilDereferencePanic

subsection \<open>\<^verbatim>\<open>IsNotEmpty\<close>, \<^verbatim>\<open>NewPathError\<close>, \<^verbatim>\<open>PathError\<close>\<close>

text \<open>
  \<^verbatim>\<open>if err, ok := err.(*os.PathError); ok { return err.Err.(syscall.Errno) == syscall.ENOTEMPTY }\<close>
  \<^verbatim>\<open>return false\<close>:
  the outer assertion has the comma-ok form, the inner one has not.
\<close>

definition IsNotEmpty :: "error option \<Rightarrow> panic + bool" where
  "IsNotEmpty err =
     (case err of
        Some (PathErr opn path cause) \<Rightarrow>
          (case cause of
             Some (Errno n) \<Rightarrow> Inr (n = ENOTEMPTY)
           | _ \<Rightarrow> Inl TypeAssertionPanic)
      | _ \<Rightarrow> Inr False)"

definition NewPathError :: "string \<Rightarrow> string \<Rightarrow> string \<Rightarrow> error" where
  "NewPathError opn name text = PathErr opn name (Some (ErrorString text))"

text \<open>
  \<^verbatim>\<open>PathError(err, op, name)\<close> returns a \<^verbatim>\<open>*os.PathError\<close>, \<^verbatim>\<open>nil\<close> for a
  \<^verbatim>\<open>nil\<close> argument. The operation of a fresh wrapper is the constant \<^verbatim>\<open>"read"\<close>;
  the parameter \<^verbatim>\<open>op\<close> is not used by the body.
\<close>

definition PathError :: "error option \<Rightarrow> string \<Rightarrow> string \<Rightarrow> error option" where
  "PathError err opn name =
     (case err of
        None \<Rightarrow> None
      | Some (PathErr opn' path' cause') \<Rightarrow> Some (PathErr opn' path' cause')
      | Some e \<Rightarrow> Some (PathErr ''read'' name (Some e)))"

fun is_PathErr :: "error \<Rightarrow> bool" where
  "is_PathErr (PathErr opn path cause) = True"
| "is_PathErr e = False"

section \<open>Files: \<^verbatim>\<open>ReadFileMagic\<close> and \<^verbatim>\<open>VisitCreatedFile\<close>\<close>

text \<open>
  A byte is a \<open>char\<close>; a \<^verbatim>\<open>[]byte\<close> and a Go \<^verbatim>\<open>string\<close> are both \<open>char list\<close>, so
  the conversion \<^verbatim>\<open>string(magic)\<close> is the identity.
\<close>

type_synonym byte = char

abbreviation NUL :: byte where
  "NUL \<equiv> CHR 0x00"

abbreviation LF :: byte where
  "LF \<equiv> CHR 0x0A"

abbreviation CR :: byte where
  "CR \<equiv> CHR 0x0D"

text \<open>
  An open \<^verbatim>\<open>*os.File\<close>, as far as reading from offset 0 goes: a regular file with its
  content, or a file whose \<^verbatim>\<open>Read\<close> fails with an error of the operating system (a
  directory, a device error).
\<close>

datatype osfile = Regular "byte list" | Unreadable error

text \<open>
  \<^verbatim>\<open>n, err := f.Read(buf)\<close> on a zeroed buffer of \<open>k > 0\<close> bytes, at offset 0: the new
  content of the buffer, \<open>n\<close> and \<open>err\<close>. At the end of the file \<^verbatim>\<open>Read\<close> returns
  \<open>0, io.EOF\<close>; a file shorter than the buffer fills only its first \<open>n\<close> bytes.
\<close>

definition file_Read :: "osfile \<Rightarrow> nat \<Rightarrow> byte list \<times> nat \<times> error option" where
  "file_Read f k =
     (case f of
        Regular c \<Rightarrow>
          if c = [] then (replicate k NUL, 0, Some EOF)
          else (take k c @ replicate (k - length c) NUL, min k (length c), None)
      | Unreadable e \<Rightarrow> (replicate k NUL, 0, Some e))"

text \<open>
  \<^verbatim>\<open>ReadFileMagic(name) (data []byte, err error)\<close>. \<open>os_Open\<close> is \<^verbatim>\<open>os.Open\<close> on the
  file system at hand. The count that \<^verbatim>\<open>Read\<close> returns is assigned to \<^verbatim>\<open>_\<close>. The
  buffer has four bytes, so \<^verbatim>\<open>data[3]\<close> is in range. The deferred \<^verbatim>\<open>f.Close()\<close> has
  no part in the result.
\<close>

definition ReadFileMagic :: "(string \<Rightarrow> error + osfile) \<Rightarrow> string \<Rightarrow> byte list \<times> error option" where
  "ReadFileMagic os_Open name =
     (case os_Open name of
        Inl e \<Rightarrow> ([], Some e)
      | Inr f \<Rightarrow>
          (case file_Read f 4 of
             (data, n, err) \<Rightarrow>
               (let err' = (if err = Some EOF then None else err);
                    data' = (if data ! 3 = CR then data[3 := LF] else data)
                in (data', err'))))"

text \<open>The literal \<^verbatim>\<open>"---\n"\<close> that \<^verbatim>\<open>ReadPage\<close> compares the magic with.\<close>

definition frontMatterMagic :: "byte list" where
  "frontMatterMagic = ''---'' @ [LF]"

text \<open>
  The words of the specification: the first four bytes of the content, with a carriage
  return in the fourth position rewritten to a line feed.
\<close>

definition normalizedPrefix :: "byte list \<Rightarrow> byte list" where
  "normalizedPrefix c =
     (if 4 \<le> length c \<and> c ! 3 = CR then (take 4 c)[3 := LF] else take 4 c)"

text \<open>A file system that holds one file, whatever the name.\<close>

definition oneFile :: "byte list \<Rightarrow> string \<Rightarrow> error + osfile" where
  "oneFile c name = Inr (Regular c)"

text \<open>
  A stream that \<^verbatim>\<open>os.Create\<close> returns: the bytes written so far, the number of calls
  of \<^verbatim>\<open>Close\<close> so far, and the error that the operating system will report when the
  stream is closed (a late flush error), if any.
\<close>

record stream =
  written :: "byte list"
  closes :: nat
  closeErr :: "error option"

text \<open>
  \<^verbatim>\<open>f.Close()\<close>: the first call returns the pending error of the stream, a later one
  the error of \<^verbatim>\<open>os.ErrClosed\<close>.
\<close>

definition file_Close :: "stream \<Rightarrow> error option \<times> stream" where
  "file_Close f =
     ((if closes f = 0 then closeErr f else Some (ErrorString ''file already closed'')),
      f\<lparr>closes := Suc (closes f)\<rparr>)"

text \<open>
  The write routine receives the stream as an \<^verbatim>\<open>io.Writer\<close>, whose only method is
  \<^verbatim>\<open>Write\<close>: it is a function from the bytes written so far to the bytes written
  after it and its outcome, an error or a panic.
\<close>

type_synonym writer = "byte list \<Rightarrow> (panic + error option) \<times> byte list"

definition apply_writer :: "writer \<Rightarrow> stream \<Rightarrow> (panic + error option) \<times> stream" where
  "apply_writer w f = (case w (written f) of (res, out) \<Rightarrow> (res, f\<lparr>written := out\<rparr>))"

text \<open>The deferred function of \<^verbatim>\<open>VisitCreatedFile\<close>: \<^verbatim>\<open>if close { _ = f.Close() }\<close>.\<close>

definition deferred_close :: "bool \<Rightarrow> stream \<Rightarrow> stream" where
  "deferred_close close f = (if close then snd (file_Close f) else f)"

text \<open>
  \<^verbatim>\<open>VisitCreatedFile(name, w)\<close>: the error returned, or the panic of the write
  routine, and the stream as the call leaves it (\<open>None\<close> when none was created). The
  deferred function runs on every way out, with \<^verbatim>\<open>close\<close> still true unless the
  write succeeded.
\<close>

definition VisitCreatedFile ::
  "(string \<Rightarrow> error + stream) \<Rightarrow> string \<Rightarrow> writer \<Rightarrow>
   (panic + error option) \<times> stream option" where
  "VisitCreatedFile os_Create name w =
     (case os_Create name of
        Inl e \<Rightarrow> (Inr (Some e), None)
      | Inr f \<Rightarrow>
          (case apply_writer w f of
             (Inl p, f1) \<Rightarrow> (Inl p, Some (deferred_close True f1))
           | (Inr (Some e), f1) \<Rightarrow> (Inr (Some e), Some (deferred_close True f1))
           | (Inr None, f1) \<Rightarrow>
               (case file_Close f1 of
                  (cerr, f2) \<Rightarrow> (Inr cerr, Some (deferred_close False f2)))))"

text \<open>
  Example inputs: \<^verbatim>\<open>os.Create\<close> succeeding with a fresh stream whose close will
  report errno 28, and write routines that succeed, fail and panic.
\<close>

definition createFresh :: "string \<Rightarrow> error + stream" where
  "createFresh name = Inr \<lparr>written = [], closes = 0, closeErr = Some (Errno 28)\<rparr>"

definition writeHello :: writer where
  "writeHello out = (Inr None, out @ ''hi'')"

definition writeFails :: writer where
  "writeFails out = (Inr (Some (ErrorString ''boom'')), out @ ''h'')"

definition writePanics :: writer where
  "writePanics out = (Inl NilDereferencePanic, out)"

section \<open>Pages: \<^verbatim>\<open>page.go\<close>\<close>

text \<open>
  A value of a \<^verbatim>\<open>VariableMap\<close> (\<^verbatim>\<open>map[string]interface{}\<close>): the dynamic types
  that front matter and the template object hold. A \<^verbatim>\<open>time.Time\<close> is a number.
\<close>

datatype fmvalue =
    VString string
  | VBool bool
  | VNumber int
  | VTime nat
  | VStrings "string list"
  | VSeq "fmvalue list"
  | VMap "(string \<times> fmvalue) list"

type_synonym VariableMap = "string \<rightharpoonup> fmvalue"

text \<open>Of a \<^verbatim>\<open>Site\<close> the code reads the field \<^verbatim>\<open>Source\<close> only.\<close>

record Site =
  Source :: string

text \<open>\<^verbatim>\<open>os.FileInfo\<close>: the methods that the code calls.\<close>

record FileInfo =
  Name :: string
  IsDir :: bool
  ModTime :: nat

record pageFields =
  relpath :: string
  permalink :: string
  modTime :: nat
  frontMatter :: VariableMap
  collection :: "string option"
  site :: Site

text \<open>
  The two implementations of the interface \<^verbatim>\<open>Page\<close>: a \<^verbatim>\<open>StaticPage\<close> embeds the
  fields; a dynamic page has its content too.
\<close>

datatype Page = StaticPage pageFields | DynamicPage pageFields "byte list"

fun fieldsOf :: "Page \<Rightarrow> pageFields" where
  "fieldsOf (StaticPage f) = f"
| "fieldsOf (DynamicPage f body) = f"

fun Static :: "Page \<Rightarrow> bool" where
  "Static (StaticPage f) = True"
| "Static (DynamicPage f body) = False"

text \<open>
  \<^verbatim>\<open>filepath.Join\<close> of two elements, for clean elements: an empty element is
  ignored. \<^verbatim>\<open>filepath.ToSlash\<close> is the identity where the separator is a slash.
\<close>

definition filepath_Join :: "string \<Rightarrow> string \<Rightarrow> string" where
  "filepath_Join a b = (if a = [] then b else if b = [] then a else a @ ''/'' @ b)"

definition filepath_ToSlash :: "string \<Rightarrow> string" where
  "filepath_ToSlash p = p"

text \<open>
  \<^verbatim>\<open>path.Ext\<close>: the loop runs from the last byte down to the last slash and returns
  the suffix that starts at the first dot it meets. \<open>ext_scan\<close> takes the path reversed
  and the bytes passed so far.
\<close>

fun ext_scan :: "string \<Rightarrow> string \<Rightarrow> string" where
  "ext_scan [] acc = []"
| "ext_scan (c # cs) acc =
     (if c = CHR ''/'' then []
      else if c = CHR ''.'' then c # acc
      else ext_scan cs (c # acc))"

definition path_Ext :: "string \<Rightarrow> string" where
  "path_Ext p = ext_scan (rev p) []"

text \<open>
  \<^verbatim>\<open>path.Base\<close>: \<^verbatim>\<open>"."\<close> for the empty path; else the trailing slashes are
  stripped and the last element is returned, \<^verbatim>\<open>"/"\<close> when nothing is left.
\<close>

definition path_Base :: "string \<Rightarrow> string" where
  "path_Base p =
     (if p = [] then ''.''
      else
        (let q = dropWhile (\<lambda>c. c = CHR ''/'') (rev p);
             b = rev (takeWhile (\<lambda>c. c \<noteq> CHR ''/'') q)
         in if b = [] then ''/'' else b))"

text \<open>
  Modelled from the spec: \<^verbatim>\<open>helpers.PathWithoutExtension\<close> is not among the sources.
  The specification: the base name with its final extension stripped.
\<close>

definition PathWithoutExtension :: "string \<Rightarrow> string" where
  "PathWithoutExtension p = take (length p - length (path_Ext p)) p"

text \<open>
  Modelled from the spec: \<^verbatim>\<open>MergeVariableMaps\<close> is not among the sources. The
  specification: the maps are merged and, where both have a key, the value of the
  later map wins (the parsed block over the defaults, the structural keys over the
  metadata).
\<close>

definition MergeVariableMaps :: "VariableMap \<Rightarrow> VariableMap \<Rightarrow> VariableMap" where
  "MergeVariableMaps m1 m2 = m1 ++ m2"

text \<open>
  Modelled from the spec: \<^verbatim>\<open>NewDynamicPage\<close> is not among the sources. The
  specification: the defaults that the fields carry are merged with the block parsed
  from the file, and the parsed values win. \<open>readFrontMatter\<close> stands for reading the
  file, extracting the block and deserialising it: it gives the parsed block and the
  body.
\<close>

definition NewDynamicPage ::
  "(string \<Rightarrow> error + VariableMap \<times> byte list) \<Rightarrow> pageFields \<Rightarrow> error + Page" where
  "NewDynamicPage readFrontMatter f =
     (case readFrontMatter (filepath_Join (Source (site f)) (relpath f)) of
        Inl e \<Rightarrow> Inl e
      | Inr (parsed, body) \<Rightarrow>
          Inr (DynamicPage (f\<lparr>frontMatter := MergeVariableMaps (frontMatter f) parsed\<rparr>) body))"

text \<open>
  \<^verbatim>\<open>ReadPage(site, collection, relpath, defaults) (p Page, err error)\<close>. The results
  are named, and every \<^verbatim>\<open>return\<close> is bare: the function returns whatever \<^verbatim>\<open>p\<close> and
  \<^verbatim>\<open>err\<close> hold at that point. \<open>os_Open\<close> and \<open>os_stat\<close> are \<^verbatim>\<open>os.Open\<close> and
  \<^verbatim>\<open>os.Stat\<close> on the file system at hand;
  \<open>newDynamicPage\<close> is \<^verbatim>\<open>NewDynamicPage\<close>; \<open>initPermalink\<close> is the method of the
  interface, which is not among the sources: it may change the page it is called on
  and a state \<open>'s\<close> of its own, and returns an error.
\<close>

definition ReadPage ::
  "(string \<Rightarrow> error + osfile) \<Rightarrow> (string \<Rightarrow> error + FileInfo) \<Rightarrow>
   (pageFields \<Rightarrow> error + Page) \<Rightarrow> (Page \<Rightarrow> 's \<Rightarrow> (error option \<times> Page) \<times> 's) \<Rightarrow>
   Site \<Rightarrow> string option \<Rightarrow> string \<Rightarrow> VariableMap \<Rightarrow> 's \<Rightarrow>
   (Page option \<times> error option) \<times> 's" where
  "ReadPage os_Open os_stat newDynamicPage initPermalink st coll rel defaults s =
     (let abspath = filepath_Join (Source st) rel in
      case ReadFileMagic os_Open abspath of
        (magic, Some e) \<Rightarrow> ((None, Some e), s)
      | (magic, None) \<Rightarrow>
          (case os_stat abspath of
             Inl e \<Rightarrow> ((None, Some e), s)
           | Inr info \<Rightarrow>
               (let fields = \<lparr>relpath = rel, permalink = [], modTime = ModTime info,
                              frontMatter = defaults, collection = coll, site = st\<rparr>
                in case (if magic = frontMatterMagic then newDynamicPage fields
                         else Inr (StaticPage fields)) of
                     Inl e \<Rightarrow> ((None, Some e), s)
                   | Inr p \<Rightarrow>
                       (case initPermalink p s of
                          ((err, p'), s') \<Rightarrow> ((Some p', err), s')))))"

text \<open>
  \<^verbatim>\<open>pageFields.TemplateObject\<close>: the five structural keys.
\<close>

definition pageFields_TemplateObject :: "pageFields \<Rightarrow> VariableMap" where
  "pageFields_TemplateObject p =
     (let relpath' = ''/'' @ filepath_ToSlash (relpath p);
          base = path_Base relpath';
          ext = path_Ext relpath'
      in [''path'' \<mapsto> VString relpath',
          ''modified_time'' \<mapsto> VTime (modTime p),
          ''name'' \<mapsto> VString base,
          ''basename'' \<mapsto> VString (PathWithoutExtension base),
          ''extname'' \<mapsto> VString ext])"

text \<open>
  \<^verbatim>\<open>pageFields.DebugVariables\<close>: the receiver is a \<^verbatim>\<open>*pageFields\<close>, so
  \<^verbatim>\<open>p.TemplateObject()\<close> is the method above.
\<close>

definition pageFields_DebugVariables :: "pageFields \<Rightarrow> VariableMap" where
  "pageFields_DebugVariables p = pageFields_TemplateObject p"

text \<open>
  \<^verbatim>\<open>StaticPage.TemplateObject\<close>: the receiver \<^verbatim>\<open>page\<close> is a \<^verbatim>\<open>*StaticPage\<close>, and the
  selector \<^verbatim>\<open>page.TemplateObject\<close> denotes the method at the shallowest depth, which
  is \<^verbatim>\<open>StaticPage.TemplateObject\<close> itself, not the method promoted from the embedded
  \<^verbatim>\<open>pageFields\<close>. The function calls itself before it merges; \<open>None\<close> is a call that
  does not return.
\<close>

partial_function (option) StaticPage_TemplateObject :: "pageFields \<Rightarrow> VariableMap option" where
  "StaticPage_TemplateObject page =
     Option.bind (StaticPage_TemplateObject page)
       (\<lambda>t. Some (MergeVariableMaps (frontMatter page) t))"

text \<open>An example site and page, and outcomes of the collaborators of \<open>ReadPage\<close>.\<close>

definition exampleSite :: Site where
  "exampleSite = \<lparr>Source = ''src''\<rparr>"

definition exampleDefaults :: VariableMap where
  "exampleDefaults = [''layout'' \<mapsto> VString ''default'', ''title'' \<mapsto> VString ''untitled'']"

definition exampleFields :: pageFields where
  "exampleFields = \<lparr>relpath = ''img/logo.png'', permalink = [], modTime = 7,
     frontMatter = [''caption'' \<mapsto> VString ''Logo'', ''name'' \<mapsto> VString ''mine''],
     collection = None, site = exampleSite\<rparr>"

definition statRegular :: "string \<Rightarrow> error + FileInfo" where
  "statRegular name = Inr \<lparr>Name = name, IsDir = False, ModTime = 7\<rparr>"

definition parsedTitle :: "string \<Rightarrow> error + VariableMap \<times> byte list" where
  "parsedTitle name = Inr ([''title'' \<mapsto> VString ''Home''], ''body'')"

definition permalinkOk :: "Page \<Rightarrow> nat \<Rightarrow> (error option \<times> Page) \<times> nat" where
  "permalinkOk p n = ((None, p), Suc n)"

definition permalinkFails :: "Page \<Rightarrow> nat \<Rightarrow> (error option \<times> Page) \<times> nat" where
  "permalinkFails p n = ((Some (ErrorString ''bad permalink''), p), Suc n)"

definition noFile :: "string \<Rightarrow> error + osfile" where
  "noFile name = Inl (PathErr ''open'' name (Some (Errno 2)))"

section \<open>Front matter accessors\<close>

text \<open>
  Modelled from the spec: the package \<^verbatim>\<open>frontmatter\<close> is not among the sources, only
  its test is. The specification of \<^verbatim>\<open>SortedStringArray\<close>: a single string is split
  on runs of whitespace, a sequence of strings is taken as it is, a sequence of
  arbitrary values is coerced to strings element by element, an absent value or a
  value of any other type gives the empty sequence; the result is sorted ascending,
  case-sensitively, and duplicates stay.

  \<open>isSpace\<close> is the ASCII white space; \<open>fields_scan\<close> carries the word read so far,
  reversed. The coercion of a value that is not a string is the parameter \<open>fmt\<close>; a
  string is coerced to itself, as the test expects. The order on strings is the
  lexicographic order on bytes.
\<close>

definition isSpace :: "char \<Rightarrow> bool" where
  "isSpace c = (c \<in> set [CHR '' '', CHR 0x09, CHR 0x0A, CHR 0x0B, CHR 0x0C, CHR 0x0D])"

fun fields_scan :: "string \<Rightarrow> string \<Rightarrow> string list" where
  "fields_scan w [] = (if w = [] then [] else [rev w])"
| "fields_scan w (c # cs) =
     (if isSpace c then (if w = [] then fields_scan [] cs else rev w # fields_scan [] cs)
      else fields_scan (c # w) cs)"

definition strings_Fields :: "string \<Rightarrow> string list" where
  "strings_Fields s = fields_scan [] s"

definition coerce :: "(fmvalue \<Rightarrow> string) \<Rightarrow> fmvalue \<Rightarrow> string" where
  "coerce fmt v = (case v of VString s \<Rightarrow> s | _ \<Rightarrow> fmt v)"

definition SortedStringArray ::
  "(fmvalue \<Rightarrow> string) \<Rightarrow> VariableMap \<Rightarrow> string \<Rightarrow> string list" where
  "SortedStringArray fmt fm key =
     sort (case fm key of
             Some (VString s) \<Rightarrow> strings_Fields s
           | Some (VStrings xs) \<Rightarrow> xs
           | Some (VSeq vs) \<Rightarrow> map (coerce fmt) vs
           | _ \<Rightarrow> [])"

text \<open>The front matter of the test, \<^verbatim>\<open>FrontMatter{"categories": v}\<close>, and a coercion.\<close>

definition fmtStub :: "fmvalue \<Rightarrow> string" where
  "fmtStub v = ''?''"

definition categoriesOf :: "fmvalue \<Rightarrow> VariableMap" where
  "categoriesOf v = [''categories'' \<mapsto> v]"

section \<open>Directory walks: \<^verbatim>\<open>PostfixWalk\<close> and \<^verbatim>\<open>RemoveEmptyDirectories\<close>\<close>

text \<open>
  The file system is a state \<open>'w\<close> with three system calls. Each returns an errno when
  it fails; removing changes the state. The listing of a directory is a list of
  \<open>FileInfo\<close>. Nothing is assumed of the calls, so that a statement about all of them
  holds for every file system, faulty ones included.
\<close>

record 'w osys =
  sys_readdir :: "'w \<Rightarrow> string \<Rightarrow> nat + FileInfo list"
  sys_stat :: "'w \<Rightarrow> string \<Rightarrow> nat + FileInfo"
  sys_remove :: "'w \<Rightarrow> string \<Rightarrow> nat option \<times> 'w"

text \<open>
  The functions of the Go library over the system calls. \<^verbatim>\<open>ioutil.ReadDir\<close> sorts the
  entries by name. \<^verbatim>\<open>os.Stat\<close> and \<^verbatim>\<open>os.Remove\<close> wrap the errno of a failed call
  in a \<^verbatim>\<open>*os.PathError\<close>. \<^verbatim>\<open>os.IsNotExist\<close> looks at the cause of a path error,
  or at the error itself, and knows \<^verbatim>\<open>ENOENT\<close> and \<^verbatim>\<open>os.ErrNotExist\<close>.
\<close>

definition ioutil_ReadDir :: "'w osys \<Rightarrow> 'w \<Rightarrow> string \<Rightarrow> error + FileInfo list" where
  "ioutil_ReadDir sys w dirname =
     (case sys_readdir sys w dirname of
        Inl e \<Rightarrow> Inl (PathErr ''open'' dirname (Some (Errno e)))
      | Inr files \<Rightarrow> Inr (sort_key Name files))"

definition os_Stat :: "'w osys \<Rightarrow> 'w \<Rightarrow> string \<Rightarrow> FileInfo option \<times> error option" where
  "os_Stat sys w name =
     (case sys_stat sys w name of
        Inl e \<Rightarrow> (None, Some (PathErr ''stat'' name (Some (Errno e))))
      | Inr info \<Rightarrow> (Some info, None))"

definition os_Remove :: "'w osys \<Rightarrow> 'w \<Rightarrow> string \<Rightarrow> error option \<times> 'w" where
  "os_Remove sys w name =
     (case sys_remove sys w name of
        (None, w') \<Rightarrow> (None, w')
      | (Some e, w') \<Rightarrow> (Some (PathErr ''remove'' name (Some (Errno e))), w'))"

definition underlyingError :: "error option \<Rightarrow> error option" where
  "underlyingError err = (case err of Some (PathErr opn path cause) \<Rightarrow> cause | _ \<Rightarrow> err)"

definition os_IsNotExist :: "error option \<Rightarrow> bool" where
  "os_IsNotExist err =
     (underlyingError err = Some (Errno ENOENT) \<or> underlyingError err = Some ErrNotExist)"

text \<open>
  A \<^verbatim>\<open>filepath.WalkFunc\<close> receives the path, the \<^verbatim>\<open>FileInfo\<close> and the error of the
  stat; it may change the file system, and returns an error or panics.
\<close>

type_synonym 'w WalkFunc =
  "string \<Rightarrow> FileInfo option \<Rightarrow> error option \<Rightarrow> 'w \<Rightarrow> (panic + error option) \<times> 'w"

text \<open>
  The loop of \<^verbatim>\<open>PostfixWalk\<close> over the listing: for each entry that is a directory the
  recursive call \<open>walk\<close>, and a \<^verbatim>\<open>return err\<close> out of the loop when it returns an
  error. \<open>None\<close> is a recursive call that did not return.
\<close>

fun walk_files ::
  "(string \<Rightarrow> 'w \<Rightarrow> ((panic + error option) \<times> 'w) option) \<Rightarrow> string \<Rightarrow> FileInfo list \<Rightarrow> 'w \<Rightarrow>
   ((panic + error option) \<times> 'w) option" where
  "walk_files walk root [] w = Some (Inr None, w)"
| "walk_files walk root (st # files) w =
     (if IsDir st then
        (case walk (filepath_Join root (Name st)) w of
           None \<Rightarrow> None
         | Some (Inr None, w') \<Rightarrow> walk_files walk root files w'
         | Some (r, w') \<Rightarrow> Some (r, w'))
      else walk_files walk root files w)"

text \<open>
  \<^verbatim>\<open>PostfixWalk(root, walkFn)\<close>. The first argument bounds the depth of the recursion:
  a visitor may create directories while the walk runs, so the recursion need not end,
  and \<open>None\<close> is a walk that needs a deeper stack. An error of the listing leaves the
  loop out. The stat of the root and the call of the visitor come after the loop.
\<close>

fun PostfixWalk ::
  "nat \<Rightarrow> 'w osys \<Rightarrow> string \<Rightarrow> 'w WalkFunc \<Rightarrow> 'w \<Rightarrow> ((panic + error option) \<times> 'w) option" where
  "PostfixWalk 0 sys root walkFn w = None"
| "PostfixWalk (Suc n) sys root walkFn w =
     (case walk_files (\<lambda>p. PostfixWalk n sys p walkFn) root
             (case ioutil_ReadDir sys w root of Inr files \<Rightarrow> files | Inl err \<Rightarrow> []) w of
        None \<Rightarrow> None
      | Some (Inr None, w') \<Rightarrow>
          (case os_Stat sys w' root of (info, err) \<Rightarrow> Some (walkFn root info err w'))
      | Some (r, w') \<Rightarrow> Some (r, w'))"

text \<open>
  The visitor of \<^verbatim>\<open>RemoveEmptyDirectories\<close>. \<^verbatim>\<open>info.IsDir()\<close> is reached only when
  \<^verbatim>\<open>err\<close> is nil.
\<close>

definition removeWalkFn :: "'w osys \<Rightarrow> 'w WalkFunc" where
  "removeWalkFn sys name info err w =
     (if err \<noteq> None \<and> os_IsNotExist err then (Inr None, w)
      else if err \<noteq> None then (Inr err, w)
      else
        (case info of
           None \<Rightarrow> (Inl NilDereferencePanic, w)
         | Some i \<Rightarrow>
             if IsDir i then
               (case os_Remove sys w name of
                  (rerr, w') \<Rightarrow>
                    if rerr = None then (Inr None, w')
                    else if os_IsNotExist rerr then (Inr None, w')
                    else
                      (case IsNotEmpty rerr of
                         Inl p \<Rightarrow> (Inl p, w')
                       | Inr True \<Rightarrow> (Inr None, w')
                       | Inr False \<Rightarrow> (Inr rerr, w')))
             else (Inr None, w)))"

definition RemoveEmptyDirectories ::
  "nat \<Rightarrow> 'w osys \<Rightarrow> string \<Rightarrow> 'w \<Rightarrow> ((panic + error option) \<times> 'w) option" where
  "RemoveEmptyDirectories n sys root w = PostfixWalk n sys root (removeWalkFn sys) w"

subsection \<open>A file system that is a tree\<close>

text \<open>
  A tree of directories and files, the names of the entries of a directory beside
  them. A path is resolved from the top of the tree, component by component; the
  components are the pieces between the slashes.
\<close>

datatype node = FileNode | DirNode "(string \<times> node) list"

fun isDirNode :: "node \<Rightarrow> bool" where
  "isDirNode FileNode = False"
| "isDirNode (DirNode cs) = True"

fun components :: "string \<Rightarrow> string list" where
  "components [] = [[]]"
| "components (c # cs) =
     (if c = CHR ''/'' then [] # components cs
      else (case components cs of p # ps \<Rightarrow> (c # p) # ps | [] \<Rightarrow> [[c]]))"

fun lookup :: "node \<Rightarrow> string list \<Rightarrow> node option" where
  "lookup t [] = Some t"
| "lookup FileNode (p # ps) = None"
| "lookup (DirNode cs) (p # ps) =
     (case map_of cs p of None \<Rightarrow> None | Some c \<Rightarrow> lookup c ps)"

definition infoOf :: "string \<times> node \<Rightarrow> FileInfo" where
  "infoOf e = \<lparr>Name = fst e, IsDir = isDirNode (snd e), ModTime = 0\<rparr>"

definition ENOTDIR :: nat where
  "ENOTDIR = 20"

definition EBUSY :: nat where
  "EBUSY = 16"

fun last_component :: "string list \<Rightarrow> string" where
  "last_component [] = []"
| "last_component [p] = p"
| "last_component (p # ps) = last_component ps"

definition tree_readdir :: "node \<Rightarrow> string \<Rightarrow> nat + FileInfo list" where
  "tree_readdir t path =
     (case lookup t (components path) of
        None \<Rightarrow> Inl ENOENT
      | Some FileNode \<Rightarrow> Inl ENOTDIR
      | Some (DirNode cs) \<Rightarrow> Inr (map infoOf cs))"

definition tree_stat :: "node \<Rightarrow> string \<Rightarrow> nat + FileInfo" where
  "tree_stat t path =
     (case lookup t (components path) of
        None \<Rightarrow> Inl ENOENT
      | Some c \<Rightarrow> Inr (infoOf (last_component (components path), c)))"

text \<open>
  Removing the entry at a path: a file or an empty directory goes, a directory with
  entries stays; the top of the tree cannot be removed.
\<close>

fun remove_at :: "node \<Rightarrow> string list \<Rightarrow> nat option \<times> node" where
  "remove_at t [] = (Some EBUSY, t)"
| "remove_at FileNode (p # ps) = (Some ENOTDIR, FileNode)"
| "remove_at (DirNode cs) [p] =
     (case map_of cs p of
        None \<Rightarrow> (Some ENOENT, DirNode cs)
      | Some (DirNode (x # xs)) \<Rightarrow> (Some ENOTEMPTY, DirNode cs)
      | Some c \<Rightarrow> (None, DirNode (filter (\<lambda>e. fst e \<noteq> p) cs)))"
| "remove_at (DirNode cs) (p # q # ps) =
     (case map_of cs p of
        None \<Rightarrow> (Some ENOENT, DirNode cs)
      | Some c \<Rightarrow>
          (case remove_at c (q # ps) of
             (e, c') \<Rightarrow> (e, DirNode (map (\<lambda>x. if fst x = p then (p, c') else x) cs))))"

text \<open>
  The state of a walk over a tree: the tree and the paths that the visitor has been
  called on, in order.
\<close>

record treeWorld =
  tree :: node
  visited :: "string list"

definition treeSys :: "treeWorld osys" where
  "treeSys =
     \<lparr>sys_readdir = (\<lambda>w path. tree_readdir (tree w) path),
      sys_stat = (\<lambda>w path. tree_stat (tree w) path),
      sys_remove = (\<lambda>w path.
         case remove_at (tree w) (components path) of (e, t') \<Rightarrow> (e, w\<lparr>tree := t'\<rparr>))\<rparr>"






text \<open>Example trees and an operating system whose removals are refused.\<close>

definition siteTree :: node where
  "siteTree =
     DirNode [(''site'',
       DirNode [(''b'', DirNode [(''f.txt'', FileNode)]),
                (''a'', DirNode [(''x'', DirNode [])]),
                (''index.html'', FileNode)])]"

definition startWorld :: "node \<Rightarrow> treeWorld" where
  "startWorld t = \<lparr>tree = t, visited = []\<rparr>"


definition refusingSys :: "unit osys" where
  "refusingSys =
     \<lparr>sys_readdir = (\<lambda>w path. Inr []),
      sys_stat = (\<lambda>w path. Inr \<lparr>Name = path, IsDir = True, ModTime = 0\<rparr>),
      sys_remove = (\<lambda>w path. (Some 13, w))\<rparr>"

section \<open>Properties\<close>

text \<open>
  C7: wrapping is idempotent. For a non-nil error \<open>e\<close>, \<open>PathError\<close> returns \<open>e\<close> itself
  when \<open>e\<close> is already a path error, and otherwise a path error that carries an
  operation (always \<open>read\<close>), the path \<open>name\<close> and \<open>e\<close> as its cause; wrapping the
  result again, with any operation and path, returns it unchanged.
\<close>

theorem PathError_idempotent:
  "PathError (Some e) opn name =
     Some (if is_PathErr e then e else PathErr ''read'' name (Some e))
   \<and> PathError (PathError (Some e) opn name) opn' name' = PathError (Some e) opn name"
  by (cases e) (simp_all add: PathError_def)

theorem PathError_idempotent_witness:
  "PathError (Some (Errno 13)) ''open'' ''a/b'' = Some (PathErr ''read'' ''a/b'' (Some (Errno 13)))
   \<and> PathError (PathError (Some (Errno 13)) ''open'' ''a/b'') ''stat'' ''c''
       = Some (PathErr ''read'' ''a/b'' (Some (Errno 13)))"
  using PathError_idempotent [of "Errno 13" "''open''" "''a/b''" "''stat''" "''c''"]
  by (simp add: PathError_def)

text \<open>
  C10: \<open>IsNotEmpty\<close> is not total. On a path error whose cause is not an errno, such as
  the ones \<open>NewPathError\<close> builds, the unchecked type assertion panics.
\<close>

theorem IsNotEmpty_panics:
  "IsNotEmpty (Some (NewPathError ''render'' ''/x'' ''no such file'')) = Inl TypeAssertionPanic"
  by (simp add: IsNotEmpty_def NewPathError_def)

text \<open>
  Where it does return, it returns what the claim says: false for nil and for an error
  that is not a path error, and for a path error with an errno as its cause whether
  that errno is \<open>ENOTEMPTY\<close>.
\<close>

lemma IsNotEmpty_returns:
  "IsNotEmpty None = Inr False"
  "\<not> is_PathErr e \<Longrightarrow> IsNotEmpty (Some e) = Inr False"
  "IsNotEmpty (Some (PathErr opn path (Some (Errno n)))) = Inr (n = ENOTEMPTY)"
  by (cases e; simp add: IsNotEmpty_def)+

lemma ReadFileMagic_Regular:
  assumes "os_Open name = Inr (Regular c)"
  shows "ReadFileMagic os_Open name =
           (let d = take 4 c @ replicate (4 - length (take 4 c)) NUL
            in if d ! 3 = CR then d[3 := LF] else d, None)"
proof (cases "c = []")
  case True
  with assms show ?thesis
    by (simp add: ReadFileMagic_def file_Read_def)
next
  case False
  have "4 - min (length c) 4 = 4 - length c" by simp
  with False assms show ?thesis
    by (simp add: ReadFileMagic_def file_Read_def Let_def)
qed

text \<open>
  C3 (as amended): on a regular file shorter than four bytes \<open>ReadFileMagic\<close> succeeds
  and returns the content of the file followed by zero bytes up to four bytes.
\<close>

theorem ReadFileMagic_short:
  assumes "os_Open name = Inr (Regular c)" and "length c < 4"
  shows "ReadFileMagic os_Open name = (c @ replicate (4 - length c) NUL, None)"
proof -
  have "(c @ replicate (4 - length c) NUL) ! 3 = NUL"
    using assms(2) by (simp add: nth_append)
  then show ?thesis
    using ReadFileMagic_Regular [of os_Open name c, OF assms(1)] assms(2)
    by (simp add: Let_def)
qed

theorem ReadFileMagic_short_witness:
  "ReadFileMagic (oneFile ''ab'') ''f'' = (''ab'' @ [NUL, NUL], None)"
  using ReadFileMagic_short [of "oneFile ''ab''" "''f''" "''ab''"]
  by (simp add: oneFile_def numeral_eq_Suc)

text \<open>
  C3, the claim as stated, fails: the number of bytes read is not kept. A file of one
  byte and a file of two bytes have the same result, of four bytes.
\<close>

theorem ReadFileMagic_count_lost:
  "ReadFileMagic (oneFile ''a'') ''f'' = ReadFileMagic (oneFile (''a'' @ [NUL])) ''f''
   \<and> length (fst (ReadFileMagic (oneFile ''a'') ''f'')) = 4"
  by (simp add: ReadFileMagic_def file_Read_def oneFile_def numeral_eq_Suc)

text \<open>
  C2: for a readable regular file the magic equals \<^verbatim>\<open>"---\n"\<close> exactly when the first
  four bytes of the file, with a carriage return in the fourth position rewritten to a
  line feed, are \<^verbatim>\<open>"---\n"\<close>; and two files with the same first four bytes have the
  same magic, whatever follows.
\<close>

theorem front_matter_detection:
  assumes "os_Open name = Inr (Regular c)"
    and "os_Open' name' = Inr (Regular c')" and "take 4 c' = take 4 c"
  shows "snd (ReadFileMagic os_Open name) = None
       \<and> (fst (ReadFileMagic os_Open name) = frontMatterMagic)
           = (normalizedPrefix c = frontMatterMagic)
       \<and> ReadFileMagic os_Open' name' = ReadFileMagic os_Open name"
proof -
  note magic = ReadFileMagic_Regular [of os_Open name c, OF assms(1)]
  have ok: "snd (ReadFileMagic os_Open name) = None"
    using magic by (simp add: Let_def)
  have detect: "(fst (ReadFileMagic os_Open name) = frontMatterMagic)
           = (normalizedPrefix c = frontMatterMagic)"
  proof (cases "4 \<le> length c")
    case True
    then have "fst (ReadFileMagic os_Open name) = normalizedPrefix c"
      using magic by (simp add: Let_def normalizedPrefix_def nth_append)
    then show ?thesis by simp
  next
    case False
    then have short: "length c < 4" by simp
    then have "length (normalizedPrefix c) < 4"
      by (simp add: normalizedPrefix_def)
    then have "normalizedPrefix c \<noteq> frontMatterMagic"
      by (auto simp add: frontMatterMagic_def)
    moreover have "fst (ReadFileMagic os_Open name) ! 3 = NUL"
      using magic short by (simp add: Let_def nth_append)
    then have "fst (ReadFileMagic os_Open name) \<noteq> frontMatterMagic"
      by (auto simp add: frontMatterMagic_def)
    ultimately show ?thesis by simp
  qed
  have same: "ReadFileMagic os_Open' name' = ReadFileMagic os_Open name"
    using ReadFileMagic_Regular [of os_Open' name' c', OF assms(2)] magic assms(3)
    by simp
  from ok detect same show ?thesis by simp
qed

theorem front_matter_detection_witness:
  "snd (ReadFileMagic (oneFile (''---'' @ [CR, LF] @ ''x'')) ''f'') = None
   \<and> (fst (ReadFileMagic (oneFile (''---'' @ [CR, LF] @ ''x'')) ''f'') = frontMatterMagic)
   \<and> normalizedPrefix (''---'' @ [CR, LF] @ ''x'') = frontMatterMagic
   \<and> ReadFileMagic (oneFile (''---'' @ [CR] @ ''yz'')) ''g''
       = ReadFileMagic (oneFile (''---'' @ [CR, LF] @ ''x'')) ''f''"
  using front_matter_detection [of "oneFile (''---'' @ [CR, LF] @ ''x'')" "''f''"
      "''---'' @ [CR, LF] @ ''x''" "oneFile (''---'' @ [CR] @ ''yz'')" "''g''"
      "''---'' @ [CR] @ ''yz''"]
  by (simp add: oneFile_def normalizedPrefix_def frontMatterMagic_def)

text \<open>
  C4: when the creation succeeds, \<open>VisitCreatedFile\<close> closes the stream exactly once on
  every path, a panic of the write routine included. If the write routine returns an
  error, that error is returned, whatever the close reports; if it succeeds, the error
  of the close is returned.
\<close>

theorem VisitCreatedFile_closes_once:
  assumes "os_Create name = Inr f"
  shows "map_option closes (snd (VisitCreatedFile os_Create name w)) = Some (Suc (closes f))
       \<and> fst (VisitCreatedFile os_Create name w) =
           (case fst (w (written f)) of
              Inl p \<Rightarrow> Inl p
            | Inr (Some e) \<Rightarrow> Inr (Some e)
            | Inr None \<Rightarrow> Inr (fst (file_Close (snd (apply_writer w f)))))
       \<and> fst (file_Close (snd (apply_writer w f))) =
           (if closes f = 0 then closeErr f else Some (ErrorString ''file already closed''))"
proof (cases "w (written f)")
  case (Pair res out)
  show ?thesis
  proof (cases res)
    case (Inl p)
    with Pair assms show ?thesis
      by (simp add: VisitCreatedFile_def apply_writer_def file_Close_def deferred_close_def)
  next
    case (Inr err)
    with Pair assms show ?thesis
      by (cases err)
         (simp_all add: VisitCreatedFile_def apply_writer_def file_Close_def
            deferred_close_def)
  qed
qed

theorem VisitCreatedFile_closes_once_witness:
  "VisitCreatedFile createFresh ''out'' writeFails =
     (Inr (Some (ErrorString ''boom'')),
      Some \<lparr>written = ''h'', closes = 1, closeErr = Some (Errno 28)\<rparr>)
   \<and> VisitCreatedFile createFresh ''out'' writeHello =
     (Inr (Some (Errno 28)),
      Some \<lparr>written = ''hi'', closes = 1, closeErr = Some (Errno 28)\<rparr>)
   \<and> VisitCreatedFile createFresh ''out'' writePanics =
     (Inl NilDereferencePanic,
      Some \<lparr>written = [], closes = 1, closeErr = Some (Errno 28)\<rparr>)"
  using VisitCreatedFile_closes_once [of createFresh "''out''"
      "\<lparr>written = [], closes = 0, closeErr = Some (Errno 28)\<rparr>" writeFails]
    VisitCreatedFile_closes_once [of createFresh "''out''"
      "\<lparr>written = [], closes = 0, closeErr = Some (Errno 28)\<rparr>" writeHello]
    VisitCreatedFile_closes_once [of createFresh "''out''"
      "\<lparr>written = [], closes = 0, closeErr = Some (Errno 28)\<rparr>" writePanics]
  by (simp add: createFresh_def writeFails_def writeHello_def writePanics_def
        VisitCreatedFile_def apply_writer_def file_Close_def deferred_close_def)

lemma MergeVariableMaps_apply:
  "MergeVariableMaps m1 m2 k = (case m2 k of Some v \<Rightarrow> Some v | None \<Rightarrow> m1 k)"
  by (simp add: MergeVariableMaps_def map_add_def)

text \<open>
  C1 (as amended): an error of the magic sniff, or of the stat, makes \<open>ReadPage\<close>
  return that error and no page, and \<open>initPermalink\<close> is not called. Otherwise
  \<open>ReadPage\<close> builds a dynamic page when the magic is \<^verbatim>\<open>"---\n"\<close>, its metadata
  being the parsed block merged over the defaults (\<open>NewDynamicPage\<close> as the
  specification describes it), and else a static page whose metadata is the defaults;
  it then calls \<open>initPermalink\<close> once, on that page and the initial state, and returns
  the page together with whatever error \<open>initPermalink\<close> returned.
\<close>

theorem ReadPage_classifies:
  fixes initPermalink :: "Page \<Rightarrow> 's \<Rightarrow> (error option \<times> Page) \<times> 's"
  shows "(ReadFileMagic os_Open (filepath_Join (Source st) rel) = (magic, Some e) \<longrightarrow>
            ReadPage os_Open os_stat (NewDynamicPage readFrontMatter) initPermalink st coll rel
              defaults s = ((None, Some e), s))
       \<and> (ReadFileMagic os_Open (filepath_Join (Source st) rel) = (magic, None)
          \<and> os_stat (filepath_Join (Source st) rel) = Inl e \<longrightarrow>
            ReadPage os_Open os_stat (NewDynamicPage readFrontMatter) initPermalink st coll rel
              defaults s = ((None, Some e), s))
       \<and> (ReadFileMagic os_Open (filepath_Join (Source st) rel) = (magic, None)
          \<and> os_stat (filepath_Join (Source st) rel) = Inr info
          \<and> readFrontMatter (filepath_Join (Source st) rel) = Inr (parsed, body) \<longrightarrow>
            ReadPage os_Open os_stat (NewDynamicPage readFrontMatter) initPermalink st coll rel
              defaults s =
              (case initPermalink
                      (if magic = frontMatterMagic
                       then DynamicPage \<lparr>relpath = rel, permalink = [], modTime = ModTime info,
                              frontMatter = MergeVariableMaps defaults parsed,
                              collection = coll, site = st\<rparr> body
                       else StaticPage \<lparr>relpath = rel, permalink = [], modTime = ModTime info,
                              frontMatter = defaults, collection = coll, site = st\<rparr>) s of
                 ((err, p'), s') \<Rightarrow> ((Some p', err), s')))
       \<and> MergeVariableMaps defaults parsed k =
            (case parsed k of Some v \<Rightarrow> Some v | None \<Rightarrow> defaults k)"
  by (simp add: ReadPage_def NewDynamicPage_def MergeVariableMaps_apply Let_def)

theorem ReadPage_classifies_witness:
  "ReadPage noFile statRegular (NewDynamicPage parsedTitle)
      permalinkOk exampleSite None ''index.md'' exampleDefaults 0 =
     ((None, Some (PathErr ''open'' ''src/index.md'' (Some (Errno 2)))), 0)
   \<and> ReadPage (oneFile (''---'' @ [LF] @ ''title: Home'')) statRegular
      (NewDynamicPage parsedTitle) permalinkOk exampleSite None ''index.md'' exampleDefaults 0 =
     ((Some (DynamicPage \<lparr>relpath = ''index.md'', permalink = [], modTime = 7,
              frontMatter = MergeVariableMaps exampleDefaults [''title'' \<mapsto> VString ''Home''],
              collection = None, site = exampleSite\<rparr> ''body''), None), 1)
   \<and> MergeVariableMaps exampleDefaults [''title'' \<mapsto> VString ''Home''] ''title''
       = Some (VString ''Home'')
   \<and> MergeVariableMaps exampleDefaults [''title'' \<mapsto> VString ''Home''] ''layout''
       = Some (VString ''default'')
   \<and> ReadPage (oneFile ''GIF89a'') statRegular (NewDynamicPage parsedTitle)
      permalinkOk exampleSite None ''a.gif'' exampleDefaults 0 =
     ((Some (StaticPage \<lparr>relpath = ''a.gif'', permalink = [], modTime = 7,
              frontMatter = exampleDefaults, collection = None, site = exampleSite\<rparr>), None), 1)"
  using
    ReadPage_classifies [where os_Open = noFile and st = exampleSite and rel = "''index.md''"
      and magic = "[]" and e = "PathErr ''open'' ''src/index.md'' (Some (Errno 2))"
      and os_stat = statRegular and readFrontMatter = parsedTitle
      and initPermalink = permalinkOk and coll = None and defaults = exampleDefaults and s = 0
      and info = "\<lparr>Name = ''src/index.md'', IsDir = False, ModTime = 7\<rparr>"
      and parsed = "[''title'' \<mapsto> VString ''Home'']" and body = "''body''"
      and k = "''title''"]
    ReadPage_classifies [where os_Open = "oneFile (''---'' @ [LF] @ ''title: Home'')"
      and st = exampleSite and rel = "''index.md''"
      and magic = frontMatterMagic and e = EOF
      and os_stat = statRegular and readFrontMatter = parsedTitle
      and initPermalink = permalinkOk and coll = None and defaults = exampleDefaults and s = 0
      and info = "\<lparr>Name = ''src/index.md'', IsDir = False, ModTime = 7\<rparr>"
      and parsed = "[''title'' \<mapsto> VString ''Home'']" and body = "''body''"
      and k = "''layout''"]
    ReadPage_classifies [where os_Open = "oneFile ''GIF89a''"
      and st = exampleSite and rel = "''a.gif''"
      and magic = "''GIF8''" and e = EOF
      and os_stat = statRegular and readFrontMatter = parsedTitle
      and initPermalink = permalinkOk and coll = None and defaults = exampleDefaults and s = 0
      and info = "\<lparr>Name = ''src/a.gif'', IsDir = False, ModTime = 7\<rparr>"
      and parsed = "[''title'' \<mapsto> VString ''Home'']" and body = "''body''"
      and k = "''title''"]
  by (simp add: ReadFileMagic_def file_Read_def oneFile_def noFile_def statRegular_def
        parsedTitle_def permalinkOk_def frontMatterMagic_def exampleSite_def
        exampleDefaults_def filepath_Join_def)

text \<open>
  C1, the claim as stated, fails: when \<open>initPermalink\<close> returns an error, the bare
  \<^verbatim>\<open>return\<close> hands back the page that was built together with the error.
\<close>

theorem ReadPage_error_with_page:
  "fst (fst (ReadPage (oneFile ''hello'') statRegular (NewDynamicPage parsedTitle)
      permalinkFails exampleSite None ''a.txt'' exampleDefaults 0)) \<noteq> None
   \<and> snd (fst (ReadPage (oneFile ''hello'') statRegular (NewDynamicPage parsedTitle)
      permalinkFails exampleSite None ''a.txt'' exampleDefaults 0))
       = Some (ErrorString ''bad permalink'')"
  by (simp add: ReadPage_def ReadFileMagic_def file_Read_def oneFile_def statRegular_def
        permalinkFails_def frontMatterMagic_def Let_def)

text \<open>
  C9: \<open>StaticPage_TemplateObject\<close> returns for no page: the call of
  \<^verbatim>\<open>page.TemplateObject()\<close> in its body is a call of itself.
\<close>

theorem StaticPage_TemplateObject_never_returns:
  "StaticPage_TemplateObject page = None"
proof (rule ccontr)
  assume "StaticPage_TemplateObject page \<noteq> None"
  then obtain t where "StaticPage_TemplateObject page = Some t"
    by auto
  then show False
  proof (rule StaticPage_TemplateObject.raw_induct [where P = "\<lambda>x y. False", rotated])
    fix f :: "pageFields \<Rightarrow> VariableMap option" and pg :: pageFields and y :: VariableMap
    assume inner: "\<And>x y. f x = Some y \<Longrightarrow> False"
      and "Option.bind (f pg) (\<lambda>t. Some (MergeVariableMaps (frontMatter pg) t)) = Some y"
    then obtain t' where "f pg = Some t'"
      by (auto simp add: bind_eq_Some_conv)
    with inner show False by blast
  qed
qed

text \<open>
  What the claim describes is the merge with the method of the embedded fields, which
  \<open>pageFields_DebugVariables\<close> does reach: there the structural keys win.
\<close>

lemma structural_keys_win:
  "MergeVariableMaps (frontMatter p) (pageFields_DebugVariables p) k =
     (case pageFields_TemplateObject p k of Some v \<Rightarrow> Some v | None \<Rightarrow> frontMatter p k)"
  by (simp add: MergeVariableMaps_apply pageFields_DebugVariables_def)

lemma structural_keys_example:
  "MergeVariableMaps (frontMatter exampleFields) (pageFields_DebugVariables exampleFields) ''name''
     = Some (VString ''logo.png'')
   \<and> MergeVariableMaps (frontMatter exampleFields) (pageFields_DebugVariables exampleFields)
       ''basename'' = Some (VString ''logo'')
   \<and> MergeVariableMaps (frontMatter exampleFields) (pageFields_DebugVariables exampleFields)
       ''caption'' = Some (VString ''Logo'')"
  by (simp add: MergeVariableMaps_apply pageFields_DebugVariables_def
        pageFields_TemplateObject_def exampleFields_def filepath_ToSlash_def path_Base_def
        path_Ext_def PathWithoutExtension_def Let_def)

lemma fields_scan_concat:
  "concat (fields_scan w s) = rev w @ filter (\<lambda>c. \<not> isSpace c) s"
  by (induction w s rule: fields_scan.induct) simp_all

lemma fields_scan_nonempty:
  "x \<in> set (fields_scan w s) \<Longrightarrow> x \<noteq> []"
  by (induction w s rule: fields_scan.induct) (simp_all split: if_splits, blast+)

text \<open>
  C8: \<open>SortedStringArray\<close> returns a sorted sequence for every front matter and key. A
  string gives its fields, which are non-empty, free of white space and together hold
  the non-space bytes of the string in order; a sequence of strings or of values gives
  its elements, coerced, with their multiplicities; an absent value and a value of
  another type give the empty sequence; and the function returns its own output
  unchanged when that output is stored under the key.
\<close>

theorem SortedStringArray_sorted:
  "sorted (SortedStringArray fmt fm key)
   \<and> (\<forall>s. fm key = Some (VString s) \<longrightarrow>
        SortedStringArray fmt fm key = sort (strings_Fields s)
        \<and> (\<forall>w\<in>set (strings_Fields s). w \<noteq> [] \<and> (\<forall>c\<in>set w. \<not> isSpace c))
        \<and> concat (strings_Fields s) = filter (\<lambda>c. \<not> isSpace c) s)
   \<and> (\<forall>xs. fm key = Some (VStrings xs) \<longrightarrow>
        mset (SortedStringArray fmt fm key) = mset xs)
   \<and> (\<forall>vs. fm key = Some (VSeq vs) \<longrightarrow>
        mset (SortedStringArray fmt fm key) = mset (map (coerce fmt) vs))
   \<and> (\<forall>s. coerce fmt (VString s) = s)
   \<and> (fm key = None \<or> (\<exists>b. fm key = Some (VBool b)) \<or> (\<exists>n. fm key = Some (VNumber n))
        \<or> (\<exists>t. fm key = Some (VTime t)) \<or> (\<exists>m. fm key = Some (VMap m)) \<longrightarrow>
        SortedStringArray fmt fm key = [])
   \<and> SortedStringArray fmt (fm(key \<mapsto> VStrings (SortedStringArray fmt fm key))) key
       = SortedStringArray fmt fm key"
proof -
  have s: "sorted (SortedStringArray fmt fm key)"
    by (simp add: SortedStringArray_def)
  have idem: "SortedStringArray fmt (fm(key \<mapsto> VStrings (SortedStringArray fmt fm key))) key
       = SortedStringArray fmt fm key"
    using s by (simp add: SortedStringArray_def sorted_sort_id)
  have w: "\<forall>w\<in>set (strings_Fields s). w \<noteq> [] \<and> (\<forall>c\<in>set w. \<not> isSpace c)" for s
  proof (intro ballI conjI)
    fix w c
    assume w: "w \<in> set (strings_Fields s)"
    then show "w \<noteq> []"
      by (simp add: strings_Fields_def fields_scan_nonempty)
    assume "c \<in> set w"
    with w have "c \<in> set (concat (strings_Fields s))"
      by auto
    then show "\<not> isSpace c"
      by (simp add: strings_Fields_def fields_scan_concat)
  qed
  have c: "concat (strings_Fields s) = filter (\<lambda>c. \<not> isSpace c) s" for s
    by (simp add: strings_Fields_def fields_scan_concat)
  have str: "\<forall>s. fm key = Some (VString s) \<longrightarrow>
        SortedStringArray fmt fm key = sort (strings_Fields s)
        \<and> (\<forall>w\<in>set (strings_Fields s). w \<noteq> [] \<and> (\<forall>c\<in>set w. \<not> isSpace c))
        \<and> concat (strings_Fields s) = filter (\<lambda>c. \<not> isSpace c) s"
    using w c by (simp add: SortedStringArray_def)
  have strs: "\<forall>xs. fm key = Some (VStrings xs) \<longrightarrow>
        mset (SortedStringArray fmt fm key) = mset xs"
    by (simp add: SortedStringArray_def)
  have sq: "\<forall>vs. fm key = Some (VSeq vs) \<longrightarrow>
        mset (SortedStringArray fmt fm key) = mset (map (coerce fmt) vs)"
    by (simp add: SortedStringArray_def)
  have co: "\<forall>s. coerce fmt (VString s) = s"
    by (simp add: coerce_def)
  have other: "fm key = None \<or> (\<exists>b. fm key = Some (VBool b)) \<or> (\<exists>n. fm key = Some (VNumber n))
        \<or> (\<exists>t. fm key = Some (VTime t)) \<or> (\<exists>m. fm key = Some (VMap m)) \<longrightarrow>
        SortedStringArray fmt fm key = []"
    by (auto simp add: SortedStringArray_def)
  show ?thesis
    using s str strs sq co other idem by blast
qed

theorem SortedStringArray_sorted_witness:
  "SortedStringArray fmtStub (categoriesOf (VString ''b  a'')) ''categories'' = [''a'', ''b'']
   \<and> SortedStringArray fmtStub (categoriesOf (VSeq [VString ''b'', VString ''a''])) ''categories''
       = [''a'', ''b'']
   \<and> SortedStringArray fmtStub (categoriesOf (VStrings [''b'', ''a''])) ''categories''
       = [''a'', ''b'']
   \<and> SortedStringArray fmtStub (categoriesOf (VNumber 3)) ''categories'' = []
   \<and> SortedStringArray fmtStub (categoriesOf (VString ''b  a'')) ''tags'' = []
   \<and> SortedStringArray fmtStub
        ((categoriesOf (VString ''b  a''))(''categories'' \<mapsto> VStrings [''a'', ''b'']))
        ''categories'' = [''a'', ''b'']"
  using SortedStringArray_sorted [of fmtStub "categoriesOf (VString ''b  a'')" "''categories''"]
    SortedStringArray_sorted [of fmtStub "categoriesOf (VNumber 3)" "''categories''"]
  by (simp add: SortedStringArray_def strings_Fields_def isSpace_def coerce_def
        categoriesOf_def)
















lemma walk_files_origin:
  "walk_files walk root files w = Some (r, w') \<Longrightarrow> r \<noteq> Inr None \<Longrightarrow>
     \<exists>p w0. walk p w0 = Some (r, w')"
proof (induction files arbitrary: w)
  case Nil
  then show ?case by simp
next
  case (Cons st files)
  show ?case
  proof (cases "IsDir st")
    case False
    with Cons show ?thesis by simp
  next
    case True
    show ?thesis
    proof (cases "walk (filepath_Join root (Name st)) w")
      case None
      with True Cons.prems show ?thesis by simp
    next
      case (Some res)
      obtain r1 w1 where res: "res = (r1, w1)" by (cases res)
      show ?thesis
      proof (cases "r1 = Inr None")
        case True
        with \<open>IsDir st\<close> Some res Cons show ?thesis by simp
      next
        case False
        with \<open>IsDir st\<close> Some res Cons.prems(1) have "r = r1 \<and> w' = w1"
          by (auto split: sum.splits option.splits)
        with Some res show ?thesis by blast
      qed
    qed
  qed
qed

lemma PostfixWalk_origin:
  "PostfixWalk n sys root walkFn w = Some (r, w') \<Longrightarrow>
     \<exists>p w1. walkFn p (fst (os_Stat sys w1 p)) (snd (os_Stat sys w1 p)) w1 = (r, w')"
proof (induction n arbitrary: root w)
  case 0
  then show ?case by simp
next
  case (Suc n)
  let ?files = "case ioutil_ReadDir sys w root of Inr files \<Rightarrow> files | Inl err \<Rightarrow> []"
  let ?walk = "\<lambda>p. PostfixWalk n sys p walkFn"
  show ?case
  proof (cases "walk_files ?walk root ?files w")
    case None
    with Suc.prems show ?thesis by simp
  next
    case (Some res)
    obtain r1 w1 where res: "res = (r1, w1)" by (cases res)
    show ?thesis
    proof (cases "r1 = Inr None")
      case True
      with Some res Suc.prems
      have "walkFn root (fst (os_Stat sys w1 root)) (snd (os_Stat sys w1 root)) w1 = (r, w')"
        by (simp split: prod.splits)
      then show ?thesis by blast
    next
      case False
      with Some res Suc.prems have "r = r1 \<and> w' = w1"
        by (auto split: sum.splits option.splits)
      with Some res False obtain p w0 where "PostfixWalk n sys p walkFn w0 = Some (r, w')"
        using walk_files_origin [of ?walk root ?files w r1 w1] by auto
      then show ?thesis by (rule Suc.IH)
    qed
  qed
qed



lemma removeWalkFn_after_stat:
  "removeWalkFn sys p (fst (os_Stat sys w p)) (snd (os_Stat sys w p)) w =
     (case sys_stat sys w p of
        Inl k \<Rightarrow> (Inr (if k = ENOENT then None else Some (PathErr ''stat'' p (Some (Errno k)))), w)
      | Inr i \<Rightarrow>
          if IsDir i then
            (case sys_remove sys w p of
               (None, w') \<Rightarrow> (Inr None, w')
             | (Some k, w') \<Rightarrow>
                 (Inr (if k = ENOENT \<or> k = ENOTEMPTY then None
                       else Some (PathErr ''remove'' p (Some (Errno k)))), w'))
          else (Inr None, w))"
  by (simp add: removeWalkFn_def os_Stat_def os_Remove_def os_IsNotExist_def
        underlyingError_def IsNotEmpty_def split: sum.splits option.splits prod.splits)

lemma removeWalkFn_result:
  assumes "removeWalkFn sys p (fst (os_Stat sys w p)) (snd (os_Stat sys w p)) w = (r, w')"
  shows "r = Inr None \<or>
         (\<exists>opn k. r = Inr (Some (PathErr opn p (Some (Errno k)))) \<and> k \<noteq> ENOENT
            \<and> (opn = ''remove'' \<longrightarrow> k \<noteq> ENOTEMPTY))"
  using assms unfolding removeWalkFn_after_stat
  by (auto split: sum.splits option.splits prod.splits if_splits)

text \<open>
  C6: the visitor of \<open>RemoveEmptyDirectories\<close> removes a directory and answers nil when
  the removal succeeds or fails with \<open>ENOENT\<close> or \<open>ENOTEMPTY\<close>, and the error of the
  removal otherwise; it answers nil for a stat that failed with \<open>ENOENT\<close> and the
  stat's error otherwise. After a nil answer the loop goes on to the next entry; an
  error leaves the loop at once. Whatever \<open>RemoveEmptyDirectories\<close> returns is the
  answer of one call of the visitor on the stat of its path, with the file system as
  that call left it: it never panics, and an error it returns is a stat or removal
  error other than the tolerated ones, after which nothing more was done.
\<close>

theorem RemoveEmptyDirectories_tolerates:
  "(IsDir i \<longrightarrow>
      removeWalkFn sys name (Some i) None w =
        (Inr (case fst (sys_remove sys w name) of
                None \<Rightarrow> None
              | Some k \<Rightarrow> if k = ENOENT \<or> k = ENOTEMPTY then None
                          else Some (PathErr ''remove'' name (Some (Errno k)))),
         snd (sys_remove sys w name)))
   \<and> removeWalkFn sys name None (Some (PathErr ''stat'' name (Some (Errno k)))) w =
        (Inr (if k = ENOENT then None else Some (PathErr ''stat'' name (Some (Errno k)))), w)
   \<and> (IsDir st \<and> walk (filepath_Join root (Name st)) w = Some (Inr None, w1) \<longrightarrow>
        walk_files walk root (st # files) w = walk_files walk root files w1)
   \<and> (IsDir st \<and> walk (filepath_Join root (Name st)) w = Some (Inr (Some e), w1) \<longrightarrow>
        walk_files walk root (st # files) w = Some (Inr (Some e), w1))
   \<and> (RemoveEmptyDirectories n sys root w = Some (r, w') \<longrightarrow>
        (\<exists>p w0. removeWalkFn sys p (fst (os_Stat sys w0 p)) (snd (os_Stat sys w0 p)) w0 = (r, w')
           \<and> (r = Inr None \<or>
               (\<exists>opn k. r = Inr (Some (PathErr opn p (Some (Errno k)))) \<and> k \<noteq> ENOENT
                  \<and> (opn = ''remove'' \<longrightarrow> k \<noteq> ENOTEMPTY)))))"
proof -
  have dir: "IsDir i \<longrightarrow>
      removeWalkFn sys name (Some i) None w =
        (Inr (case fst (sys_remove sys w name) of
                None \<Rightarrow> None
              | Some k \<Rightarrow> if k = ENOENT \<or> k = ENOTEMPTY then None
                          else Some (PathErr ''remove'' name (Some (Errno k)))),
         snd (sys_remove sys w name))"
  proof (cases "sys_remove sys w name")
    case (Pair outcome w2)
    then show ?thesis
      by (cases outcome)
         (simp_all add: removeWalkFn_def os_Remove_def os_IsNotExist_def underlyingError_def
            IsNotEmpty_def)
  qed
  have stat: "removeWalkFn sys name None (Some (PathErr ''stat'' name (Some (Errno k)))) w =
        (Inr (if k = ENOENT then None else Some (PathErr ''stat'' name (Some (Errno k)))), w)"
    by (simp add: removeWalkFn_def os_IsNotExist_def underlyingError_def)
  have cont: "IsDir st \<and> walk (filepath_Join root (Name st)) w = Some (Inr None, w1) \<longrightarrow>
        walk_files walk root (st # files) w = walk_files walk root files w1"
    by simp
  have abort: "IsDir st \<and> walk (filepath_Join root (Name st)) w = Some (Inr (Some e), w1) \<longrightarrow>
        walk_files walk root (st # files) w = Some (Inr (Some e), w1)"
    by simp
  have whole: "RemoveEmptyDirectories n sys root w = Some (r, w') \<longrightarrow>
        (\<exists>p w0. removeWalkFn sys p (fst (os_Stat sys w0 p)) (snd (os_Stat sys w0 p)) w0 = (r, w')
           \<and> (r = Inr None \<or>
               (\<exists>opn k. r = Inr (Some (PathErr opn p (Some (Errno k)))) \<and> k \<noteq> ENOENT
                  \<and> (opn = ''remove'' \<longrightarrow> k \<noteq> ENOTEMPTY))))"
  proof
    assume "RemoveEmptyDirectories n sys root w = Some (r, w')"
    then have "PostfixWalk n sys root (removeWalkFn sys) w = Some (r, w')"
      by (simp add: RemoveEmptyDirectories_def)
    from PostfixWalk_origin [OF this] obtain p w0
      where v: "removeWalkFn sys p (fst (os_Stat sys w0 p)) (snd (os_Stat sys w0 p)) w0 = (r, w')"
      by blast
    from removeWalkFn_result [OF v] v
    show "\<exists>p w0. removeWalkFn sys p (fst (os_Stat sys w0 p)) (snd (os_Stat sys w0 p)) w0 = (r, w')
           \<and> (r = Inr None \<or>
               (\<exists>opn k. r = Inr (Some (PathErr opn p (Some (Errno k)))) \<and> k \<noteq> ENOENT
                  \<and> (opn = ''remove'' \<longrightarrow> k \<noteq> ENOTEMPTY)))"
      by blast
  qed
  from dir stat cont abort whole show ?thesis
    by (intro conjI)
qed

theorem RemoveEmptyDirectories_tolerates_witness:
  "RemoveEmptyDirectories 1 refusingSys ''x'' ()
     = Some (Inr (Some (PathErr ''remove'' ''x'' (Some (Errno 13)))), ())
   \<and> removeWalkFn refusingSys ''x'' (Some \<lparr>Name = ''x'', IsDir = True, ModTime = 0\<rparr>) None ()
     = (Inr (Some (PathErr ''remove'' ''x'' (Some (Errno 13)))), ())
   \<and> removeWalkFn refusingSys ''x'' None (Some (PathErr ''stat'' ''x'' (Some (Errno 2)))) ()
     = (Inr None, ())
   \<and> RemoveEmptyDirectories 5 treeSys ''site'' (startWorld siteTree)
     = Some (Inr None, \<lparr>tree = DirNode [(''site'',
         DirNode [(''b'', DirNode [(''f.txt'', FileNode)]), (''index.html'', FileNode)])],
         visited = []\<rparr>)"
proof -
  have run: "RemoveEmptyDirectories 1 refusingSys ''x'' ()
     = Some (Inr (Some (PathErr ''remove'' ''x'' (Some (Errno 13)))), ())"
    by (simp add: RemoveEmptyDirectories_def refusingSys_def removeWalkFn_def ioutil_ReadDir_def
          os_Stat_def os_Remove_def os_IsNotExist_def underlyingError_def IsNotEmpty_def
          ENOENT_def ENOTEMPTY_def)
  have prune: "RemoveEmptyDirectories 5 treeSys ''site'' (startWorld siteTree)
     = Some (Inr None, \<lparr>tree = DirNode [(''site'',
         DirNode [(''b'', DirNode [(''f.txt'', FileNode)]), (''index.html'', FileNode)])],
         visited = []\<rparr>)"
    by code_simp
  from RemoveEmptyDirectories_tolerates [where sys = refusingSys and name = "''x''"
      and i = "\<lparr>Name = ''x'', IsDir = True, ModTime = 0\<rparr>" and w = "()" and k = 2
      and st = "\<lparr>Name = ''x'', IsDir = True, ModTime = 0\<rparr>" and root = "''x''"
      and walk = "\<lambda>p w. None" and ?w1.0 = "()" and files = "[]"
      and e = EOF and n = 1 and r = "Inr (Some (PathErr ''remove'' ''x'' (Some (Errno 13))))"
      and w' = "()"]
  have "removeWalkFn refusingSys ''x'' (Some \<lparr>Name = ''x'', IsDir = True, ModTime = 0\<rparr>) None ()
     = (Inr (Some (PathErr ''remove'' ''x'' (Some (Errno 13)))), ())
   \<and> removeWalkFn refusingSys ''x'' None (Some (PathErr ''stat'' ''x'' (Some (Errno 2)))) ()
     = (Inr None, ())"
    by (simp add: refusingSys_def ENOENT_def ENOTEMPTY_def)
  with run prune show ?thesis by simp
qed




end
